theory Spec2Isabelle
  imports Complex_Main
begin

section \<open>Hazard monitoring dashboard (app.py)\<close>

text \<open>
  The program is one Streamlit script. Every user interaction runs it from top to bottom:
  it loads the table of reports (\<open>load_data\<close>, memoised by \<open>st.cache_data\<close>), runs the
  sidebar form (which may append a report and write the file), and renders the dashboard.
  What survives from one run to the next is the file \<open>hazards.csv\<close> and the memo of
  \<open>load_data\<close>; both are fields of \<open>app_state\<close>. What the script shows to the user is a list
  of \<open>ui_event\<close>s.
\<close>

subsection \<open>Tables\<close>

text \<open>
  A cell of a table is a float, a str, a Timestamp, a bool or a missing value. A pandas
  Timestamp is modelled by the integer count of clock ticks it stands for. The two
  \<open>st.number_input\<close> widgets return finite floats; the script only tests them for truth
  (that is, against zero) and stores them, so they are modelled as reals.
\<close>

type_synonym timestamp = int

datatype cell = Num real | Str string | Time timestamp | Bool bool | NaN

text \<open>
  A DataFrame: its column labels in order, and its rows, each holding one cell per column
  (in a frame pandas builds, every row is as long as \<open>columns\<close>).
\<close>

record dataframe =
  columns :: "string list"
  rows :: "cell list list"

datatype py_error = KeyError string | ValueError | EmptyDataError

datatype ui_event =
    StError string
  | StInfo string
  | SidebarError string
  | SidebarSuccess string
  | Toast string
  | BarChart "(cell \<times> nat) list"

text \<open>\<open>pd.DataFrame(columns=cols)\<close>: no rows.\<close>

definition empty_frame :: "string list \<Rightarrow> dataframe" where
  "empty_frame cols = \<lparr>columns = cols, rows = []\<rparr>"

text \<open>\<open>pd.DataFrame([d])\<close> for one dict \<open>d\<close>: the keys in insertion order, one row.\<close>

definition frame_of_dict :: "(string \<times> cell) list \<Rightarrow> dataframe" where
  "frame_of_dict d = \<lparr>columns = map fst d, rows = [map snd d]\<rparr>"

text \<open>The cell of a row under a column label; a label the row does not have reads as NaN.\<close>

definition cell_of :: "string list \<Rightarrow> cell list \<Rightarrow> string \<Rightarrow> cell" where
  "cell_of cols r c = (case map_of (zip cols r) c of Some v \<Rightarrow> v | None \<Rightarrow> NaN)"

definition reindex :: "string list \<Rightarrow> string list \<Rightarrow> cell list \<Rightarrow> cell list" where
  "reindex old new r = map (cell_of old r) new"

text \<open>
  \<open>pd.concat([a, b], ignore_index=True)\<close>: the columns of \<open>a\<close>, then those of \<open>b\<close> that \<open>a\<close>
  lacks; the rows of \<open>a\<close>, then the rows of \<open>b\<close>, each laid out on the joined columns with NaN
  where it has no value.
\<close>

definition concat_df :: "dataframe \<Rightarrow> dataframe \<Rightarrow> dataframe" where
  "concat_df a b =
     (let cols = columns a @ filter (\<lambda>c. c \<notin> set (columns a)) (columns b)
      in \<lparr>columns = cols,
          rows = map (reindex (columns a) cols) (rows a) @ map (reindex (columns b) cols) (rows b)\<rparr>)"

text \<open>\<open>len(df)\<close> and \<open>df.empty\<close> (true when either axis has length zero).\<close>

definition df_len :: "dataframe \<Rightarrow> nat" where
  "df_len df = length (rows df)"

definition df_empty :: "dataframe \<Rightarrow> bool" where
  "df_empty df = (rows df = [] \<or> columns df = [])"

text \<open>\<open>df[c]\<close>: the column as a list of cells, KeyError when there is no such label.\<close>

definition get_column :: "dataframe \<Rightarrow> string \<Rightarrow> py_error + cell list" where
  "get_column df c =
     (if c \<in> set (columns df) then Inr (map (\<lambda>r. cell_of (columns df) r c) (rows df))
      else Inl (KeyError c))"

text \<open>\<open>df[c] = vals\<close> for an existing label \<open>c\<close>.\<close>

definition set_column :: "dataframe \<Rightarrow> string \<Rightarrow> cell list \<Rightarrow> dataframe" where
  "set_column df c vals =
     df\<lparr>rows := map2 (\<lambda>r v. map2 (\<lambda>k x. if k = c then v else x) (columns df) r) (rows df) vals\<rparr>"

text \<open>
  \<open>Series.value_counts()\<close>: the distinct values that are not missing, each with the number
  of times it occurs, the most frequent first. Values with equal counts are kept here in
  the order of their first occurrence; no theorem below depends on that choice.
\<close>

definition first_seen :: "'a list \<Rightarrow> 'a list" where
  "first_seen xs = rev (remdups (rev xs))"

definition value_counts :: "cell list \<Rightarrow> (cell \<times> nat) list" where
  "value_counts xs =
     (let vals = filter (\<lambda>v. v \<noteq> NaN) xs
      in sort_key (\<lambda>p. - int (snd p)) (map (\<lambda>v. (v, count_list vals v)) (first_seen vals)))"

subsection \<open>Record store: load_data and save_data\<close>

definition DATA_FILE :: string where
  "DATA_FILE = ''hazards.csv''"

definition schema_columns :: "string list" where
  "schema_columns =
     [''lat'', ''lon'', ''hazard_type'', ''severity'', ''status'', ''reported_by'', ''timestamp'']"

text \<open>
  The file is represented by the frame whose \<open>to_csv\<close> text it holds (every file of a
  header line and records is the text of some frame), \<open>None\<close> when the file does not exist.
  The memo of \<open>st.cache_data\<close> holds what the last completed call of \<open>load_data\<close> showed and
  returned.
\<close>

record app_state =
  csv_file :: "dataframe option"
  cache :: "(ui_event list \<times> dataframe) option"

text \<open>
  \<open>DataFrame.to_csv\<close>, \<open>pd.read_csv\<close> and \<open>pd.to_datetime\<close> are functions of pandas, which
  the script only calls; they are modelled from the pandas documentation. A CSV file is
  taken at the level of its fields, a header and records of texts: \<open>to_csv\<close> quotes a field
  that needs it and \<open>read_csv\<close> removes the quotes, so the fields read are the fields
  written.
\<close>

record csv =
  csv_header :: "string list"
  csv_records :: "string list list"

text \<open>
  What the model leaves to pandas is a parameter \<open>conv\<close>, its conversions between values and
  text: the text \<open>to_csv\<close> writes for a float and for a Timestamp; the type inference of
  \<open>read_csv\<close> on the fields of a column that are not missing (the numbers or booleans it
  reads them as, \<open>None\<close> when it leaves them as str); and \<open>pd.to_datetime\<close> on a column
  (\<open>None\<close> when it raises).
\<close>

record pandas_conv =
  float_text :: "real \<Rightarrow> string"
  time_text :: "timestamp \<Rightarrow> string"
  infer_values :: "string list \<Rightarrow> cell list option"
  to_datetime :: "cell list \<Rightarrow> cell list option"

text \<open>
  \<open>to_csv(DATA_FILE, index=False)\<close>: the column labels as the header and one record per row;
  a str is written as it is and a missing value as the empty text (\<open>na_rep=''\<close>).
\<close>

definition cell_text :: "pandas_conv \<Rightarrow> cell \<Rightarrow> string" where
  "cell_text conv c =
     (case c of
        Num x \<Rightarrow> float_text conv x
      | Str s \<Rightarrow> s
      | Time t \<Rightarrow> time_text conv t
      | Bool b \<Rightarrow> (if b then ''True'' else ''False'')
      | NaN \<Rightarrow> [])"

definition to_csv :: "pandas_conv \<Rightarrow> dataframe \<Rightarrow> csv" where
  "to_csv conv df = \<lparr>csv_header = columns df, csv_records = map (map (cell_text conv)) (rows df)\<rparr>"

text \<open>
  The texts \<open>read_csv\<close> reads as a missing value when it is called without \<open>na_values\<close> and
  \<open>keep_default_na\<close>, as the script calls it; the first is the empty text.
\<close>

definition na_values :: "string list" where
  "na_values =
     [[], ''#N/A'', ''#N/A N/A'', ''#NA'', ''-1.#IND'', ''-1.#QNAN'', ''-NaN'', ''-nan'',
      ''1.#IND'', ''1.#QNAN'', ''<NA>'', ''N/A'', ''NA'', ''NULL'', ''NaN'', ''None'', ''n/a'',
      ''nan'', ''null'']"

text \<open>
  The fields of the records column by column, for the labels of the header from left to
  right; a record that ends early has empty fields there.
\<close>

fun split_columns :: "string list \<Rightarrow> string list list \<Rightarrow> string list list" where
  "split_columns [] recs = []"
| "split_columns (h # hs) recs =
     map (\<lambda>r. case r of [] \<Rightarrow> [] | f # fs \<Rightarrow> f) recs # split_columns hs (map tl recs)"

text \<open>
  One column as \<open>read_csv\<close> returns it. The fields that are missing values become NaN. The
  other fields become the values the type inference reads them as, in their places, or stay
  str when it reads none.
\<close>

fun fill_values :: "string list \<Rightarrow> cell list \<Rightarrow> cell list" where
  "fill_values [] vals = []"
| "fill_values (f # fs) vals =
     (if f \<in> set na_values then NaN # fill_values fs vals
      else (case vals of [] \<Rightarrow> NaN # fill_values fs [] | v # vs \<Rightarrow> v # fill_values fs vs))"

definition read_column :: "pandas_conv \<Rightarrow> string list \<Rightarrow> cell list" where
  "read_column conv texts =
     (case infer_values conv (filter (\<lambda>f. f \<notin> set na_values) texts) of
        Some vals \<Rightarrow> fill_values texts vals
      | None \<Rightarrow> map (\<lambda>f. if f \<in> set na_values then NaN else Str f) texts)"

text \<open>The rows of \<open>n\<close> records from their columns.\<close>

fun join_columns :: "nat \<Rightarrow> cell list list \<Rightarrow> cell list list" where
  "join_columns n [] = replicate n []"
| "join_columns n (col # cols) = map2 (#) col (join_columns n cols)"

text \<open>
  \<open>pd.read_csv(DATA_FILE)\<close> on the text of a file that exists: the header gives the column
  labels and every column is read on its own; a text with no column raises EmptyDataError.
  In a text written by \<open>to_csv\<close> every record has one field for each label, and the labels
  of the frames of this program are distinct.
\<close>

definition read_csv :: "pandas_conv \<Rightarrow> csv \<Rightarrow> py_error + dataframe" where
  "read_csv conv c =
     (if csv_header c = [] then Inl EmptyDataError
      else Inr \<lparr>columns = csv_header c,
               rows = join_columns (length (csv_records c))
                        (map (read_column conv) (split_columns (csv_header c) (csv_records c)))\<rparr>)"

text \<open>
  \<open>df['timestamp'] = pd.to_datetime(df['timestamp'])\<close>: the whole column is converted at once.
  A frame without the column raises KeyError.
\<close>

definition convert_timestamps :: "pandas_conv \<Rightarrow> dataframe \<Rightarrow> py_error + dataframe" where
  "convert_timestamps conv df =
     (case get_column df ''timestamp'' of
        Inl e \<Rightarrow> Inl e
      | Inr vals \<Rightarrow>
          (case to_datetime conv vals of
             None \<Rightarrow> Inl ValueError
           | Some vals' \<Rightarrow> Inr (set_column df ''timestamp'' vals')))"

text \<open>
  The body of \<open>load_data\<close>: what it shows, and what it returns or raises. Only
  FileNotFoundError is caught.
\<close>

definition load_data :: "pandas_conv \<Rightarrow> dataframe option \<Rightarrow> ui_event list \<times> (py_error + dataframe)" where
  "load_data conv file =
     (case file of
        Some written \<Rightarrow>
          (case read_csv conv (to_csv conv written) of
             Inl e \<Rightarrow> ([], Inl e)
           | Inr df \<Rightarrow> ([], convert_timestamps conv df))
      | None \<Rightarrow>
          ([StError (''Error: '' @ [CHR 0x27] @ DATA_FILE @ [CHR 0x27] @
                     '' not found. A new one will be created when you add a report.'')],
           Inr (empty_frame schema_columns)))"

text \<open>
  \<open>load_data\<close> under \<open>@st.cache_data\<close>: a memoised result is returned, and the messages of
  the memoised call are shown again, without reading the file; a result is memoised only
  when the call returns.
\<close>

definition load_data_cached :: "pandas_conv \<Rightarrow> app_state \<Rightarrow> (ui_event list \<times> (py_error + dataframe)) \<times> app_state" where
  "load_data_cached conv st =
     (case cache st of
        Some (evs, df) \<Rightarrow> ((evs, Inr df), st)
      | None \<Rightarrow>
          (case load_data conv (csv_file st) of
             (evs, Inr df) \<Rightarrow> ((evs, Inr df), st\<lparr>cache := Some (evs, df)\<rparr>)
           | (evs, Inl e) \<Rightarrow> ((evs, Inl e), st)))"

text \<open>\<open>save_data\<close>: write the frame to the file, then clear the memo.\<close>

definition save_data :: "dataframe \<Rightarrow> app_state \<Rightarrow> app_state" where
  "save_data df st = st\<lparr>csv_file := Some df, cache := None\<rparr>"

subsection \<open>Row styling\<close>

text \<open>
  \<open>style_severity\<close> receives a row as a Series: the column labels with the row's cells.
  \<open>row['severity']\<close> raises KeyError when no label is \<open>severity\<close>; when several are, it is a
  Series and the \<open>if\<close> on its comparison raises ValueError.
\<close>

type_synonym series = "(string \<times> cell) list"

definition series_of :: "dataframe \<Rightarrow> cell list \<Rightarrow> series" where
  "series_of df r = zip (columns df) r"

definition style_severity :: "series \<Rightarrow> py_error + string list" where
  "style_severity row =
     (case map snd (filter (\<lambda>kv. fst kv = ''severity'') row) of
        [] \<Rightarrow> Inl (KeyError ''severity'')
      | [severity] \<Rightarrow>
          (if severity = Str ''Critical'' then Inr (replicate (length row) ''background-color: #ffadad'')
           else if severity = Str ''High'' then Inr (replicate (length row) ''background-color: #ffd6a5'')
           else if severity = Str ''Medium'' then Inr (replicate (length row) ''background-color: #fdffb6'')
           else Inr (replicate (length row) ''''))
      | _ \<Rightarrow> Inl ValueError)"

subsection \<open>The sidebar form\<close>

text \<open>
  The values of the form's widgets in one run of the script. \<open>st.selectbox\<close> and
  \<open>st.select_slider\<close> return one of their options.
\<close>

record form =
  hazard_type :: string
  severity :: string
  lat :: real
  lon :: real
  reported_by :: string
  submit_button :: bool

definition hazard_type_options :: "string list" where
  "hazard_type_options =
     [''Fire'', ''Chemical Leak'', ''Equipment Failure'', ''Structural Risk'', ''Other'']"

definition severity_options :: "string list" where
  "severity_options = [''Low'', ''Medium'', ''High'', ''Critical'']"

definition selectable :: "form \<Rightarrow> bool" where
  "selectable f = (hazard_type f \<in> set hazard_type_options \<and> severity f \<in> set severity_options)"

text \<open>Python's \<open>not x\<close> for a str (true on the empty string) and for a float (true on zero).\<close>

definition py_not_str :: "string \<Rightarrow> bool" where
  "py_not_str s = (s = [])"

definition py_not_float :: "real \<Rightarrow> bool" where
  "py_not_float x = (x = 0)"

text \<open>The one-row frame of a new report; \<open>now\<close> is what \<open>pd.Timestamp.now()\<close> returns.\<close>

definition new_report :: "timestamp \<Rightarrow> form \<Rightarrow> dataframe" where
  "new_report now f =
     frame_of_dict
       [(''lat'', Num (lat f)),
        (''lon'', Num (lon f)),
        (''hazard_type'', Str (hazard_type f)),
        (''severity'', Str (severity f)),
        (''status'', Str ''Active''),
        (''reported_by'', Str (reported_by f)),
        (''timestamp'', Time now)]"

text \<open>
  What the form block leaves behind: the messages shown, the script's variable \<open>df\<close>, the
  file and memo, and whether \<open>st.rerun()\<close> was called.
\<close>

record outcome =
  out_events :: "ui_event list"
  out_df :: "dataframe"
  out_state :: "app_state"
  out_rerun :: bool

definition submit_form :: "timestamp \<Rightarrow> form \<Rightarrow> dataframe \<Rightarrow> app_state \<Rightarrow> outcome" where
  "submit_form now f df st =
     (if submit_button f then
        (if py_not_str (reported_by f) \<or> py_not_float (lat f) \<or> py_not_float (lon f) then
           \<lparr>out_events = [SidebarError ''Please fill in all fields.''],
            out_df = df, out_state = st, out_rerun = False\<rparr>
         else
           (let df' = concat_df df (new_report now f)
            in \<lparr>out_events = [SidebarSuccess ''Hazard reported successfully!'',
                              Toast ''Dashboard refreshing...''],
                out_df = df', out_state = save_data df' st, out_rerun = True\<rparr>))
      else \<lparr>out_events = [], out_df = df, out_state = st, out_rerun = False\<rparr>)"

subsection \<open>Dashboard figures\<close>

definition total_reports :: "dataframe \<Rightarrow> nat" where
  "total_reports df = df_len df"

text \<open>The two bar charts: \<open>st.bar_chart(df[c].value_counts())\<close> unless the frame is empty.\<close>

definition counts_chart :: "string \<Rightarrow> dataframe \<Rightarrow> py_error + ui_event" where
  "counts_chart c df =
     (if \<not> df_empty df then
        (case get_column df c of
           Inl e \<Rightarrow> Inl e
         | Inr vals \<Rightarrow> Inr (BarChart (value_counts vals)))
      else Inr (StInfo ''No data for bar chart.''))"

definition by_type_chart :: "dataframe \<Rightarrow> py_error + ui_event" where
  "by_type_chart df = counts_chart ''hazard_type'' df"

definition by_severity_chart :: "dataframe \<Rightarrow> py_error + ui_event" where
  "by_severity_chart df = counts_chart ''severity'' df"

subsection \<open>The specification's vocabulary\<close>

text \<open>
  The enumerations as the specification spells them, and what it means for a list of keys
  to follow an enumeration's order: the keys are met in that order when the enumeration is
  read from left to right.
\<close>

definition spec_hazard_types :: "string list" where
  "spec_hazard_types =
     [''Fire'', ''ChemicalLeak'', ''EquipmentFailure'', ''StructuralRisk'', ''Other'']"

definition spec_severities :: "string list" where
  "spec_severities = [''Low'', ''Medium'', ''High'', ''Critical'']"

fun follows_order :: "'a list \<Rightarrow> 'a list \<Rightarrow> bool" where
  "follows_order [] enum = True"
| "follows_order (k # ks) [] = False"
| "follows_order (k # ks) (e # es) =
     (if k = e then follows_order ks es else follows_order (k # ks) es)"

text \<open>
  What a list of counts has to be for a column \<open>vals\<close>: one entry for each value that occurs
  and is not missing, holding the number of its occurrences; and what it means for the
  counts to come most frequent first.
\<close>

definition counts_of :: "cell list \<Rightarrow> (cell \<times> nat) list \<Rightarrow> bool" where
  "counts_of vals vc =
     (distinct (map fst vc) \<and> set (map fst vc) = set vals - {NaN} \<and>
      list_all (\<lambda>p. snd p = count_list vals (fst p)) vc)"

definition counts_descending :: "(cell \<times> nat) list \<Rightarrow> bool" where
  "counts_descending vc = sorted_wrt (\<lambda>p q. snd q \<le> snd p) vc"

text \<open>
  A valid payload, by the four rules of the specification's validator: \<open>reported_by\<close> is
  not empty after trimming whitespace, the latitude is within [-90, 90] and the longitude
  within [-180, 180], and the hazard type and the severity are of their enumerations.
\<close>

definition is_space :: "char \<Rightarrow> bool" where
  "is_space c = (c \<in> {CHR 0x20, CHR 0x09, CHR 0x0A, CHR 0x0D})"

definition trim :: "string \<Rightarrow> string" where
  "trim s = rev (dropWhile is_space (rev (dropWhile is_space s)))"

definition spec_valid :: "form \<Rightarrow> bool" where
  "spec_valid f =
     (trim (reported_by f) \<noteq> [] \<and>
      - 90 \<le> lat f \<and> lat f \<le> 90 \<and> - 180 \<le> lon f \<and> lon f \<le> 180 \<and>
      hazard_type f \<in> set spec_hazard_types \<and> severity f \<in> set spec_severities)"

subsection \<open>Sample data\<close>

text \<open>
  Concrete inputs for the closed theorems below: a stored table of one report, a table of
  three, the store holding the first with an empty memo, and the form filled in as in the
  specification's scenario.
\<close>

definition sample_table :: dataframe where
  "sample_table =
     \<lparr>columns = schema_columns,
      rows = [[Num 28.6139, Num 77.209, Str ''Other'', Str ''Low'', Str ''Active'',
               Str ''Worker B'', Time 1600]]\<rparr>"

definition busy_table :: dataframe where
  "busy_table =
     \<lparr>columns = schema_columns,
      rows = [[Num 28.6139, Num 77.209, Str ''Other'', Str ''Low'', Str ''Active'',
               Str ''Worker B'', Time 1600],
              [Num 19.076, Num 72.8777, Str ''Other'', Str ''High'', Str ''Active'',
               Str ''Worker A'', Time 1700],
              [Num 13.0827, Num 80.2707, Str ''Fire'', Str ''High'', Str ''Active'',
               Str ''Safety Officer'', Time 1800]]\<rparr>"

definition sample_store :: app_state where
  "sample_store = \<lparr>csv_file = Some sample_table, cache = None\<rparr>"

definition sample_form :: form where
  "sample_form =
     \<lparr>hazard_type = ''Fire'', severity = ''Critical'', lat = 19.076, lon = 72.8777,
      reported_by = ''Worker A'', submit_button = True\<rparr>"

text \<open>
  A table whose one report was filed by a reporter who typed \<open>NA\<close> as the name, and pandas'
  conversions on the values of the sample data: the texts of the four coordinates and of
  the instant 1600, which are read back as these values, every other text being left as str.
\<close>

definition na_table :: dataframe where
  "na_table =
     \<lparr>columns = schema_columns,
      rows = [[Num 28.6139, Num 77.209, Str ''Other'', Str ''Low'', Str ''Active'',
               Str ''NA'', Time 1600]]\<rparr>"

definition sample_number :: "string \<Rightarrow> cell option" where
  "sample_number s =
     (if s = ''28.6139'' then Some (Num 28.6139)
      else if s = ''77.209'' then Some (Num 77.209)
      else if s = ''19.076'' then Some (Num 19.076)
      else if s = ''72.8777'' then Some (Num 72.8777)
      else None)"

definition sample_datetime :: "cell \<Rightarrow> cell option" where
  "sample_datetime c =
     (case c of
        Str s \<Rightarrow> (if s = ''1970-01-01 00:26:40'' then Some (Time 1600) else None)
      | Time t \<Rightarrow> Some (Time t)
      | NaN \<Rightarrow> Some NaN
      | _ \<Rightarrow> None)"

definition sample_pandas :: pandas_conv where
  "sample_pandas =
     \<lparr>float_text = (\<lambda>x. if x = 28.6139 then ''28.6139''
                        else if x = 77.209 then ''77.209''
                        else if x = 19.076 then ''19.076''
                        else if x = 72.8777 then ''72.8777''
                        else ''0.0''),
      time_text = (\<lambda>t. if t = 1600 then ''1970-01-01 00:26:40'' else ''1970-01-01 00:00:00''),
      infer_values = (\<lambda>texts. those (map sample_number texts)),
      to_datetime = (\<lambda>vals. those (map sample_datetime vals))\<rparr>"

section \<open>Properties\<close>

subsection \<open>Frames and the form: auxiliary facts\<close>

lemma cell_of_map:
  "c \<in> set cols \<Longrightarrow> cell_of cols (map g cols) c = g c"
  by (simp add: cell_of_def map_of_zip_map)


lemma columns_concat_df:
  "columns (concat_df a b) = columns a @ filter (\<lambda>c. c \<notin> set (columns a)) (columns b)"
  by (simp add: concat_df_def Let_def)

lemma set_columns_concat_df:
  "set (columns (concat_df a b)) = set (columns a) \<union> set (columns b)"
  by (auto simp: columns_concat_df)

lemma rows_concat_df:
  "rows (concat_df a b) =
     map (reindex (columns a) (columns (concat_df a b))) (rows a) @
     map (reindex (columns b) (columns (concat_df a b))) (rows b)"
  by (simp add: concat_df_def Let_def)

lemma df_len_concat_df: "df_len (concat_df a b) = df_len a + df_len b"
  by (simp add: df_len_def rows_concat_df)

lemma last_cell_concat_df:
  assumes "rows b = [r]" and "c \<in> set (columns b)"
  shows "cell_of (columns (concat_df a b)) (last (rows (concat_df a b))) c = cell_of (columns b) r c"
proof -
  have "last (rows (concat_df a b)) = reindex (columns b) (columns (concat_df a b)) r"
    using assms(1) by (simp add: rows_concat_df)
  moreover have "c \<in> set (columns (concat_df a b))"
    using assms(2) by (simp add: set_columns_concat_df)
  ultimately show ?thesis
    by (simp add: reindex_def cell_of_map)
qed

lemma rows_new_report:
  "rows (new_report now f) =
     [[Num (lat f), Num (lon f), Str (hazard_type f), Str (severity f), Str ''Active'',
       Str (reported_by f), Time now]]"
  by (simp add: new_report_def frame_of_dict_def)

lemma columns_new_report: "columns (new_report now f) = schema_columns"
  by (simp add: new_report_def frame_of_dict_def schema_columns_def)

lemma new_row_cells:
  "map (cell_of schema_columns
        [Num x, Num y, Str h, Str s, Str ''Active'', Str w, Time t]) schema_columns =
     [Num x, Num y, Str h, Str s, Str ''Active'', Str w, Time t]"
  by (simp add: schema_columns_def cell_of_def)

lemma last_row_of_submission:
  "map (cell_of (columns (concat_df df (new_report now f)))
          (last (rows (concat_df df (new_report now f))))) schema_columns =
     [Num (lat f), Num (lon f), Str (hazard_type f), Str (severity f), Str ''Active'',
      Str (reported_by f), Time now]"
proof -
  have "\<And>c. c \<in> set schema_columns \<Longrightarrow>
      cell_of (columns (concat_df df (new_report now f)))
        (last (rows (concat_df df (new_report now f)))) c =
      cell_of schema_columns
        [Num (lat f), Num (lon f), Str (hazard_type f), Str (severity f), Str ''Active'',
         Str (reported_by f), Time now] c"
    using last_cell_concat_df [OF rows_new_report, of _ now f df]
    by (simp add: columns_new_report)
  then have "map (cell_of (columns (concat_df df (new_report now f)))
          (last (rows (concat_df df (new_report now f))))) schema_columns =
     map (cell_of schema_columns
        [Num (lat f), Num (lon f), Str (hazard_type f), Str (severity f), Str ''Active'',
         Str (reported_by f), Time now]) schema_columns"
    by (simp cong: map_cong)
  then show ?thesis by (simp only: new_row_cells)
qed

lemma submit_form_rejects:
  "submit_button f \<Longrightarrow> reported_by f = [] \<or> lat f = 0 \<or> lon f = 0 \<Longrightarrow>
   submit_form now f df st =
     \<lparr>out_events = [SidebarError ''Please fill in all fields.''],
      out_df = df, out_state = st, out_rerun = False\<rparr>"
  by (simp add: submit_form_def py_not_str_def py_not_float_def)

lemma submit_form_accepts:
  "submit_button f \<Longrightarrow> reported_by f \<noteq> [] \<Longrightarrow> lat f \<noteq> 0 \<Longrightarrow> lon f \<noteq> 0 \<Longrightarrow>
   submit_form now f df st =
     \<lparr>out_events = [SidebarSuccess ''Hazard reported successfully!'',
                    Toast ''Dashboard refreshing...''],
      out_df = concat_df df (new_report now f),
      out_state = save_data (concat_df df (new_report now f)) st, out_rerun = True\<rparr>"
  by (simp add: submit_form_def py_not_str_def py_not_float_def Let_def)

lemma submit_form_idle:
  "\<not> submit_button f \<Longrightarrow>
   submit_form now f df st = \<lparr>out_events = [], out_df = df, out_state = st, out_rerun = False\<rparr>"
  by (simp add: submit_form_def)

lemma filter_zip_absent:
  "c \<notin> set ks \<Longrightarrow> filter (\<lambda>kv. fst kv = c) (zip ks xs) = []"
  by (auto simp: filter_empty_conv dest: set_zip_leftD)

lemma severity_of_series:
  "distinct cols \<Longrightarrow> c \<in> set cols \<Longrightarrow> length r = length cols \<Longrightarrow>
   map snd (filter (\<lambda>kv. fst kv = c) (zip cols r)) = [cell_of cols r c]"
proof (induction cols arbitrary: r)
  case Nil
  then show ?case by simp
next
  case (Cons k ks)
  then obtain x xs where r: "r = x # xs" by (cases r) auto
  show ?case
  proof (cases "k = c")
    case True
    with Cons.prems r show ?thesis
      by (simp add: filter_zip_absent cell_of_def)
  next
    case False
    with Cons r show ?thesis
      by (simp add: cell_of_def)
  qed
qed

lemma rerun_iff:
  "out_rerun (submit_form now f df st) =
     (submit_button f \<and> reported_by f \<noteq> [] \<and> lat f \<noteq> 0 \<and> lon f \<noteq> 0)"
  by (simp add: submit_form_def py_not_str_def py_not_float_def Let_def)

lemma accepted_submission_record:
  assumes "submit_button f" and "reported_by f \<noteq> []" and "lat f \<noteq> 0" and "lon f \<noteq> 0"
  shows "out_rerun (submit_form now f df st)
       \<and> total_reports (out_df (submit_form now f df st)) = total_reports df + 1
       \<and> map (cell_of (columns (out_df (submit_form now f df st)))
                (last (rows (out_df (submit_form now f df st))))) schema_columns =
           [Num (lat f), Num (lon f), Str (hazard_type f), Str (severity f), Str ''Active'',
            Str (reported_by f), Time now]
       \<and> csv_file (out_state (submit_form now f df st)) = Some (out_df (submit_form now f df st))"
proof -
  from assms have s: "submit_form now f df st =
     \<lparr>out_events = [SidebarSuccess ''Hazard reported successfully!'',
                    Toast ''Dashboard refreshing...''],
      out_df = concat_df df (new_report now f),
      out_state = save_data (concat_df df (new_report now f)) st, out_rerun = True\<rparr>"
    by (rule submit_form_accepts)
  have n: "total_reports (concat_df df (new_report now f)) = total_reports df + 1"
    by (simp add: total_reports_def df_len_concat_df) (simp add: df_len_def rows_new_report)
  show ?thesis
    by (simp add: s n last_row_of_submission save_data_def)
qed

subsection \<open>Counting values: auxiliary facts\<close>

lemma count_list_filter:
  "P v \<Longrightarrow> count_list (filter P xs) v = count_list xs v"
  by (induction xs) auto

lemma set_first_seen: "set (first_seen xs) = set xs"
  by (simp add: first_seen_def)

lemma distinct_first_seen: "distinct (first_seen xs)"
  by (simp add: first_seen_def)

lemma distinct_keys_sort_key:
  "distinct (map fst (sort_key g ps)) = distinct (map fst ps)"
  by (simp add: distinct_map)

lemma set_keys_sort_key:
  "set (map fst (sort_key g ps)) = set (map fst ps)"
  by simp

lemma value_counts_descending: "counts_descending (value_counts xs)"
proof -
  have "sorted (map (\<lambda>p. - int (snd p)) (value_counts xs))"
    by (simp add: value_counts_def Let_def)
  then show ?thesis
    by (simp add: counts_descending_def sorted_map sorted_wrt_iff_nth_less)
qed

lemma value_counts_counts: "counts_of xs (value_counts xs)"
proof -
  let ?vals = "filter (\<lambda>v. v \<noteq> NaN) xs"
  let ?ps = "map (\<lambda>v. (v, count_list ?vals v)) (first_seen ?vals)"
  have vc: "value_counts xs = sort_key (\<lambda>p. - int (snd p)) ?ps"
    unfolding value_counts_def Let_def by (rule refl)
  have keys: "map fst ?ps = first_seen ?vals"
    by (simp add: comp_def)
  have "distinct (map fst (value_counts xs))"
    by (simp only: vc distinct_keys_sort_key keys distinct_first_seen)
  moreover have "set (map fst (value_counts xs)) = set xs - {NaN}"
  proof -
    have "set (map fst (value_counts xs)) = set ?vals"
      by (simp only: vc set_keys_sort_key keys set_first_seen)
    also have "\<dots> = set xs - {NaN}"
      by auto
    finally show ?thesis .
  qed
  moreover have "list_all (\<lambda>p. snd p = count_list xs (fst p)) (value_counts xs)"
  proof -
    have "\<forall>p \<in> set ?ps. snd p = count_list xs (fst p)"
      by (auto simp: set_first_seen count_list_filter)
    then have "\<forall>p \<in> set (sort_key (\<lambda>p. - int (snd p)) ?ps). snd p = count_list xs (fst p)"
      by (simp only: set_sort)
    then show ?thesis
      by (simp only: vc list_all_iff)
  qed
  ultimately show ?thesis
    by (simp add: counts_of_def)
qed

lemma counts_chart_shown:
  assumes "\<not> df_empty df" and "c \<in> set (columns df)"
  shows "\<exists>vals vc. get_column df c = Inr vals \<and> counts_chart c df = Inr (BarChart vc)
           \<and> counts_of vals vc \<and> counts_descending vc"
  using assms
  by (simp add: counts_chart_def get_column_def value_counts_counts value_counts_descending)

subsection \<open>Submission: what the handler rejects and what it writes\<close>

text \<open>
  Claim C1 (a latitude or longitude of exactly 0 is accepted). The handler's guard is
  \<open>not reported_by or not lat or not lon\<close>, and \<open>not 0.0\<close> is true: with every field
  filled in and a latitude of 0, the handler answers "Please fill in all fields." and
  leaves the table and the file as they were. The claim does not hold of the code.
\<close>

theorem zero_latitude_rejected:
  "submit_form now
     \<lparr>hazard_type = ''Fire'', severity = ''Medium'', lat = 0, lon = 78.9629,
      reported_by = ''Worker A'', submit_button = True\<rparr> df st =
   \<lparr>out_events = [SidebarError ''Please fill in all fields.''],
    out_df = df, out_state = st, out_rerun = False\<rparr>"
  by (simp add: submit_form_def py_not_str_def py_not_float_def)

text \<open>
  Claim C2 (coordinates outside [-90, 90] and [-180, 180] are rejected). The handler
  compares no coordinate with a bound. A latitude of 100 with a longitude of 200 is
  appended and written to the file:
\<close>

theorem out_of_range_coordinates_persisted:
  "(90::real) < 100 \<and> (180::real) < 200
   \<and> out_events (submit_form 1700 (sample_form\<lparr>lat := 100, lon := 200\<rparr>) sample_table sample_store) =
       [SidebarSuccess ''Hazard reported successfully!'', Toast ''Dashboard refreshing...'']
   \<and> csv_file (out_state (submit_form 1700 (sample_form\<lparr>lat := 100, lon := 200\<rparr>) sample_table sample_store)) =
       Some \<lparr>columns = schema_columns,
             rows = [[Num 28.6139, Num 77.209, Str ''Other'', Str ''Low'', Str ''Active'',
                      Str ''Worker B'', Time 1600],
                     [Num 100, Num 200, Str ''Fire'', Str ''Critical'', Str ''Active'',
                      Str ''Worker A'', Time 1700]]\<rparr>"
  by (simp add: submit_form_def py_not_str_def py_not_float_def sample_form_def save_data_def
      sample_store_def Let_def concat_df_def new_report_def frame_of_dict_def sample_table_def
      schema_columns_def reindex_def cell_of_def)

text \<open>
  Claim C2, as the code has it: a submitted form with a non-empty \<open>reported_by\<close> and a
  latitude and a longitude other than 0 is accepted, appended as one more row and written
  to the file, whatever the size of its coordinates.
\<close>

theorem filled_form_persisted_whatever_the_range:
  assumes "submit_button f" and "reported_by f \<noteq> []" and "lat f \<noteq> 0" and "lon f \<noteq> 0"
  shows "out_events (submit_form now f df st) =
           [SidebarSuccess ''Hazard reported successfully!'', Toast ''Dashboard refreshing...'']
       \<and> out_df (submit_form now f df st) = concat_df df (new_report now f)
       \<and> csv_file (out_state (submit_form now f df st)) = Some (concat_df df (new_report now f))
       \<and> total_reports (out_df (submit_form now f df st)) = total_reports df + 1"
  using assms
  by (simp add: submit_form_accepts save_data_def total_reports_def df_len_concat_df)
    (simp add: df_len_def rows_new_report)

theorem filled_form_persisted_whatever_the_range_witness:
  "out_events (submit_form 1700 (sample_form\<lparr>lat := - 123.5, lon := 500\<rparr>) sample_table sample_store) =
       [SidebarSuccess ''Hazard reported successfully!'', Toast ''Dashboard refreshing...'']
   \<and> total_reports (out_df (submit_form 1700 (sample_form\<lparr>lat := - 123.5, lon := 500\<rparr>) sample_table sample_store)) = 2"
proof -
  have b: "submit_button (sample_form\<lparr>lat := - 123.5, lon := 500\<rparr>)"
    and r: "reported_by (sample_form\<lparr>lat := - 123.5, lon := 500\<rparr>) \<noteq> []"
    and x: "lat (sample_form\<lparr>lat := - 123.5, lon := 500\<rparr>) \<noteq> 0"
    and y: "lon (sample_form\<lparr>lat := - 123.5, lon := 500\<rparr>) \<noteq> 0"
    by (simp_all add: sample_form_def)
  have n: "total_reports sample_table = 1"
    by (simp add: total_reports_def df_len_def sample_table_def)
  note t = filled_form_persisted_whatever_the_range [OF b r x y, of 1700 sample_table sample_store]
  from t have "total_reports (out_df (submit_form 1700 (sample_form\<lparr>lat := - 123.5, lon := 500\<rparr>)
      sample_table sample_store)) = total_reports sample_table + 1"
    by blast
  with n have "total_reports (out_df (submit_form 1700 (sample_form\<lparr>lat := - 123.5, lon := 500\<rparr>)
      sample_table sample_store)) = 2"
    by linarith
  with t show ?thesis by blast
qed




text \<open>
  Claim C4 (a rejected submission writes nothing). Whenever the form block shows a
  validation error, the store (file and memo) and the script's table are the ones it
  started with, so the number of reports is unchanged, and no rerun is requested.
\<close>

theorem rejected_submit_writes_nothing:
  assumes "SidebarError msg \<in> set (out_events (submit_form now f df st))"
  shows "out_state (submit_form now f df st) = st
       \<and> csv_file (out_state (submit_form now f df st)) = csv_file st
       \<and> out_df (submit_form now f df st) = df
       \<and> total_reports (out_df (submit_form now f df st)) = total_reports df
       \<and> out_rerun (submit_form now f df st) = False"
proof (cases "submit_button f")
  case False
  then show ?thesis by (simp add: submit_form_idle)
next
  case True
  show ?thesis
  proof (cases "reported_by f = [] \<or> lat f = 0 \<or> lon f = 0")
    case True
    with \<open>submit_button f\<close> show ?thesis by (simp add: submit_form_rejects)
  next
    case False
    with \<open>submit_button f\<close> assms show ?thesis by (simp add: submit_form_accepts)
  qed
qed

theorem rejected_submit_writes_nothing_witness:
  "SidebarError ''Please fill in all fields.'' \<in>
     set (out_events (submit_form 1700 (sample_form\<lparr>reported_by := ''''\<rparr>) sample_table sample_store))
   \<and> out_state (submit_form 1700 (sample_form\<lparr>reported_by := ''''\<rparr>) sample_table sample_store) = sample_store
   \<and> csv_file (out_state (submit_form 1700 (sample_form\<lparr>reported_by := ''''\<rparr>) sample_table sample_store)) =
       Some sample_table
   \<and> total_reports (out_df (submit_form 1700 (sample_form\<lparr>reported_by := ''''\<rparr>) sample_table sample_store)) = 1"
proof -
  have h: "SidebarError ''Please fill in all fields.'' \<in>
     set (out_events (submit_form 1700 (sample_form\<lparr>reported_by := ''''\<rparr>) sample_table sample_store))"
    by (simp add: submit_form_def py_not_str_def sample_form_def)
  have n: "total_reports sample_table = 1"
    by (simp add: total_reports_def df_len_def sample_table_def)
  have s: "csv_file sample_store = Some sample_table"
    by (simp add: sample_store_def)
  from rejected_submit_writes_nothing [OF h] h n s show ?thesis by simp
qed

subsection \<open>The record a submission creates\<close>

text \<open>
  Claim C6 (a persisted \<open>hazard_type\<close> is one of Fire, ChemicalLeak, EquipmentFailure,
  StructuralRisk, Other). The select box offers the labels with spaces. Choosing its
  second option persists \<open>Chemical Leak\<close>, which is none of the five spellings of the claim:
\<close>

theorem chemical_leak_spelling_persisted:
  "selectable (sample_form\<lparr>hazard_type := ''Chemical Leak''\<rparr>)
   \<and> csv_file (out_state (submit_form 1700 (sample_form\<lparr>hazard_type := ''Chemical Leak''\<rparr>)
        sample_table sample_store)) =
       Some \<lparr>columns = schema_columns,
             rows = [[Num 28.6139, Num 77.209, Str ''Other'', Str ''Low'', Str ''Active'',
                      Str ''Worker B'', Time 1600],
                     [Num 19.076, Num 72.8777, Str ''Chemical Leak'', Str ''Critical'', Str ''Active'',
                      Str ''Worker A'', Time 1700]]\<rparr>
   \<and> ''Chemical Leak'' \<notin> set spec_hazard_types"
  by (simp add: selectable_def hazard_type_options_def severity_options_def spec_hazard_types_def
      submit_form_def py_not_str_def py_not_float_def sample_form_def save_data_def
      sample_store_def Let_def concat_df_def new_report_def frame_of_dict_def sample_table_def
      schema_columns_def reindex_def cell_of_def)

text \<open>
  Claim C6, as the code has it: the \<open>hazard_type\<close> of the row an accepted submission
  appends and writes is the chosen option of the select box, one of \<open>Fire\<close>,
  \<open>Chemical Leak\<close>, \<open>Equipment Failure\<close>, \<open>Structural Risk\<close>, \<open>Other\<close>.
\<close>

theorem persisted_hazard_type_is_an_option:
  assumes "selectable f" and "out_rerun (submit_form now f df st)"
  shows "cell_of (columns (out_df (submit_form now f df st)))
           (last (rows (out_df (submit_form now f df st)))) ''hazard_type''
         \<in> {Str ''Fire'', Str ''Chemical Leak'', Str ''Equipment Failure'',
            Str ''Structural Risk'', Str ''Other''}
       \<and> csv_file (out_state (submit_form now f df st)) = Some (out_df (submit_form now f df st))"
proof -
  from assms(2) have a: "submit_button f" "reported_by f \<noteq> []" "lat f \<noteq> 0" "lon f \<noteq> 0"
    by (simp_all add: rerun_iff)
  have "cell_of (columns (concat_df df (new_report now f)))
          (last (rows (concat_df df (new_report now f)))) ''hazard_type'' = Str (hazard_type f)"
    using last_row_of_submission [of df now f] by (simp add: schema_columns_def)
  moreover from assms(1) have "hazard_type f \<in> {''Fire'', ''Chemical Leak'', ''Equipment Failure'',
      ''Structural Risk'', ''Other''}"
    by (simp add: selectable_def hazard_type_options_def)
  ultimately show ?thesis
    using a by (auto simp: submit_form_accepts save_data_def)
qed

theorem persisted_hazard_type_is_an_option_witness:
  "cell_of (columns (out_df (submit_form 1700 sample_form sample_table sample_store)))
     (last (rows (out_df (submit_form 1700 sample_form sample_table sample_store)))) ''hazard_type''
     \<in> {Str ''Fire'', Str ''Chemical Leak'', Str ''Equipment Failure'',
        Str ''Structural Risk'', Str ''Other''}
   \<and> csv_file (out_state (submit_form 1700 sample_form sample_table sample_store)) =
       Some (out_df (submit_form 1700 sample_form sample_table sample_store))"
proof -
  have s: "selectable sample_form"
    by (simp add: selectable_def sample_form_def hazard_type_options_def severity_options_def)
  have r: "out_rerun (submit_form 1700 sample_form sample_table sample_store)"
    by (simp add: rerun_iff sample_form_def)
  from persisted_hazard_type_is_an_option [OF s r] show ?thesis .
qed

text \<open>
  Claim C7 (for every valid payload the created record is fully populated, has the status
  Active and a timestamp not earlier than the start of the call). A payload that is valid
  by the rules of the specification and lies on the prime meridian, with a longitude of
  exactly 0, creates no record at all: the guard of the handler takes the 0 for a field
  that was not filled in, which is the defect of claim C1, and the table and the file stay
  as they were. For the payloads the handler accepts, the row it appends is populated as
  the claim says (\<open>accepted_submission_record\<close>).
\<close>

theorem valid_payload_on_the_meridian_creates_no_record:
  "spec_valid \<lparr>hazard_type = ''Fire'', severity = ''High'', lat = 51.4779, lon = 0,
               reported_by = ''Worker A'', submit_button = True\<rparr>
   \<and> selectable \<lparr>hazard_type = ''Fire'', severity = ''High'', lat = 51.4779, lon = 0,
               reported_by = ''Worker A'', submit_button = True\<rparr>
   \<and> submit_form now
       \<lparr>hazard_type = ''Fire'', severity = ''High'', lat = 51.4779, lon = 0,
        reported_by = ''Worker A'', submit_button = True\<rparr> df st =
     \<lparr>out_events = [SidebarError ''Please fill in all fields.''],
      out_df = df, out_state = st, out_rerun = False\<rparr>"
  by (simp add: spec_valid_def trim_def is_space_def spec_hazard_types_def spec_severities_def
      selectable_def hazard_type_options_def severity_options_def
      submit_form_def py_not_str_def py_not_float_def)

subsection \<open>Loading when the file is absent\<close>

text \<open>
  Claim C8 (an absent file gives an empty table and is not surfaced to the user). The
  except branch of \<open>load_data\<close> calls \<open>st.error\<close>: the user is shown an error message.
\<close>

theorem missing_file_shows_an_error:
  "fst (load_data sample_pandas None) =
     [StError ''Error: 'hazards.csv' not found. A new one will be created when you add a report.'']"
  by (simp add: load_data_def DATA_FILE_def)

text \<open>
  Claim C8, as the code has it: when the file is absent (and nothing is memoised),
  \<open>load_data\<close> raises nothing and returns the empty table with the seven columns \<open>lat\<close>,
  \<open>lon\<close>, \<open>hazard_type\<close>, \<open>severity\<close>, \<open>status\<close>, \<open>reported_by\<close>, \<open>timestamp\<close>; it shows the
  user one error message saying that the file was not found, and it creates no file.
\<close>

theorem missing_file_gives_empty_table:
  assumes "csv_file st = None" and "cache st = None"
  shows "load_data conv (csv_file st) =
           ([StError ''Error: 'hazards.csv' not found. A new one will be created when you add a report.''],
            Inr \<lparr>columns = [''lat'', ''lon'', ''hazard_type'', ''severity'', ''status'',
                             ''reported_by'', ''timestamp''],
                  rows = []\<rparr>)
       \<and> fst (load_data_cached conv st) = load_data conv (csv_file st)
       \<and> csv_file (snd (load_data_cached conv st)) = None"
  using assms
  by (simp add: load_data_cached_def load_data_def DATA_FILE_def empty_frame_def schema_columns_def)

theorem missing_file_gives_empty_table_witness:
  "fst (load_data_cached sample_pandas \<lparr>csv_file = None, cache = None\<rparr>) =
     ([StError ''Error: 'hazards.csv' not found. A new one will be created when you add a report.''],
      Inr \<lparr>columns = [''lat'', ''lon'', ''hazard_type'', ''severity'', ''status'',
                       ''reported_by'', ''timestamp''],
            rows = []\<rparr>)"
proof -
  have f: "csv_file \<lparr>csv_file = None, cache = None\<rparr> = None"
    and m: "cache \<lparr>csv_file = None, cache = None\<rparr> = None"
    by simp_all
  from missing_file_gives_empty_table [OF f m, of sample_pandas] show ?thesis
    by simp
qed

subsection \<open>Saving, then loading\<close>

text \<open>
  \<open>save_data\<close> clears the memo, so the call of \<open>load_data\<close> that follows reads the file
  that was just written rather than answering from the memo.
\<close>

lemma load_after_save_reads_the_file:
  "fst (load_data_cached conv (save_data df st)) = load_data conv (Some df)"
proof (cases "load_data conv (Some df)")
  case (Pair evs res)
  then show ?thesis
    by (cases res) (simp_all add: load_data_cached_def save_data_def)
qed

lemma read_column_single: "\<exists>c. read_column conv [f] = [c]"
  by (simp add: read_column_def split: option.splits list.splits)

lemma read_column_NA: "read_column conv [''NA''] = [NaN]"
  by (simp add: read_column_def na_values_def split: option.splits)

lemma read_csv_na_table:
  "\<exists>c0 c1 c2 c3 c4 c6. read_csv conv (to_csv conv na_table) =
     Inr \<lparr>columns = schema_columns, rows = [[c0, c1, c2, c3, c4, NaN, c6]]\<rparr>"
proof -
  obtain c0 where c0: "read_column conv [float_text conv 28.6139] = [c0]"
    using read_column_single by blast
  obtain c1 where c1: "read_column conv [float_text conv 77.209] = [c1]"
    using read_column_single by blast
  obtain c2 where c2: "read_column conv [''Other''] = [c2]"
    using read_column_single by blast
  obtain c3 where c3: "read_column conv [''Low''] = [c3]"
    using read_column_single by blast
  obtain c4 where c4: "read_column conv [''Active''] = [c4]"
    using read_column_single by blast
  obtain c6 where c6: "read_column conv [time_text conv 1600] = [c6]"
    using read_column_single by blast
  have "read_csv conv (to_csv conv na_table) =
     Inr \<lparr>columns = schema_columns, rows = [[c0, c1, c2, c3, c4, NaN, c6]]\<rparr>"
    using c0 c1 c2 c3 c4 c6
    by (simp add: read_csv_def to_csv_def na_table_def schema_columns_def cell_text_def
        read_column_NA)
  then show ?thesis by blast
qed

lemma convert_timestamps_keeps_NaN:
  "convert_timestamps conv \<lparr>columns = schema_columns, rows = [[c0, c1, c2, c3, c4, NaN, c6]]\<rparr>
     \<noteq> Inr na_table"
proof (cases "to_datetime conv [c6]")
  case None
  then show ?thesis
    by (simp add: convert_timestamps_def get_column_def cell_of_def schema_columns_def)
next
  case (Some vals)
  then show ?thesis
    by (cases vals)
      (simp_all add: convert_timestamps_def get_column_def set_column_def cell_of_def
        schema_columns_def na_table_def)
qed

text \<open>
  With the sample conversions, the table of the sample data comes back from the file as
  it was saved: its texts are none of the missing-value texts.
\<close>

lemma sample_table_comes_back:
  "fst (load_data_cached sample_pandas (save_data sample_table st)) = ([], Inr sample_table)"
  by (simp add: load_after_save_reads_the_file load_data_def read_csv_def to_csv_def
      sample_table_def schema_columns_def cell_text_def read_column_def na_values_def
      sample_pandas_def sample_number_def sample_datetime_def convert_timestamps_def
      get_column_def set_column_def cell_of_def)

text \<open>
  Claim C5 (saving a table and then loading it gives the table back). A reporter who types
  \<open>NA\<close> as the name is accepted, and the table \<open>na_table\<close> with that report is what the
  handler writes on an empty store. The file then holds the field \<open>NA\<close>, which \<open>read_csv\<close>
  reads as a missing value: with the sample conversions the table loaded has NaN in place of
  the name, and whatever the conversions of pandas are, the load that follows the save does
  not return the table that was saved.
\<close>

theorem reporter_named_NA_is_lost:
  "out_state (submit_form 1600
      \<lparr>hazard_type = ''Other'', severity = ''Low'', lat = 28.6139, lon = 77.209,
       reported_by = ''NA'', submit_button = True\<rparr>
      (empty_frame schema_columns) \<lparr>csv_file = None, cache = None\<rparr>) =
     \<lparr>csv_file = Some na_table, cache = None\<rparr>
   \<and> fst (load_data_cached sample_pandas \<lparr>csv_file = Some na_table, cache = None\<rparr>) =
       ([], Inr \<lparr>columns = schema_columns,
                 rows = [[Num 28.6139, Num 77.209, Str ''Other'', Str ''Low'', Str ''Active'',
                          NaN, Time 1600]]\<rparr>)
   \<and> fst (load_data_cached conv (save_data na_table st)) \<noteq> ([], Inr na_table)"
proof (intro conjI)
  show "out_state (submit_form 1600
      \<lparr>hazard_type = ''Other'', severity = ''Low'', lat = 28.6139, lon = 77.209,
       reported_by = ''NA'', submit_button = True\<rparr>
      (empty_frame schema_columns) \<lparr>csv_file = None, cache = None\<rparr>) =
     \<lparr>csv_file = Some na_table, cache = None\<rparr>"
    by (simp add: submit_form_def py_not_str_def py_not_float_def save_data_def Let_def
        concat_df_def new_report_def frame_of_dict_def empty_frame_def na_table_def
        schema_columns_def reindex_def cell_of_def)
next
  show "fst (load_data_cached sample_pandas \<lparr>csv_file = Some na_table, cache = None\<rparr>) =
       ([], Inr \<lparr>columns = schema_columns,
                 rows = [[Num 28.6139, Num 77.209, Str ''Other'', Str ''Low'', Str ''Active'',
                          NaN, Time 1600]]\<rparr>)"
    by (simp add: load_data_cached_def load_data_def read_csv_def to_csv_def na_table_def
        schema_columns_def cell_text_def read_column_def na_values_def sample_pandas_def
        sample_number_def sample_datetime_def convert_timestamps_def get_column_def
        set_column_def cell_of_def)
next
  obtain c0 c1 c2 c3 c4 c6 where r: "read_csv conv (to_csv conv na_table) =
     Inr \<lparr>columns = schema_columns, rows = [[c0, c1, c2, c3, c4, NaN, c6]]\<rparr>"
    using read_csv_na_table by blast
  have "load_data conv (Some na_table) \<noteq> ([], Inr na_table)"
    using convert_timestamps_keeps_NaN [of conv c0 c1 c2 c3 c4 c6]
    by (simp add: load_data_def r)
  then show "fst (load_data_cached conv (save_data na_table st)) \<noteq> ([], Inr na_table)"
    by (simp add: load_after_save_reads_the_file)
qed

subsection \<open>The bar charts\<close>

text \<open>
  Claim C9 (the per-type and per-severity counts iterate in the order of the enumeration).
  The charts are given \<open>value_counts()\<close> of the column, which lists the most frequent
  value first. In a table with two reports of \<open>Other\<close> and one of \<open>Fire\<close>, two of \<open>High\<close> and
  one of \<open>Low\<close>, the counts run Other, Fire and High, Low, against both enumerations:
\<close>

theorem charts_not_in_enumeration_order:
  "by_type_chart busy_table = Inr (BarChart [(Str ''Other'', 2), (Str ''Fire'', 1)])
   \<and> \<not> follows_order [Str ''Other'', Str ''Fire''] (map Str spec_hazard_types)
   \<and> by_severity_chart busy_table = Inr (BarChart [(Str ''High'', 2), (Str ''Low'', 1)])
   \<and> \<not> follows_order [Str ''High'', Str ''Low''] (map Str spec_severities)"
  by (simp add: by_type_chart_def by_severity_chart_def counts_chart_def df_empty_def
      get_column_def cell_of_def busy_table_def schema_columns_def value_counts_def
      first_seen_def spec_hazard_types_def spec_severities_def)

text \<open>
  Claim C9, as the code has it: for a table that is not empty and has the two columns,
  each chart is given one count for every value that occurs in its column, equal to the
  number of rows with that value, the counts in descending order.
\<close>

theorem charts_list_most_frequent_first:
  assumes "\<not> df_empty df" and "''hazard_type'' \<in> set (columns df)"
    and "''severity'' \<in> set (columns df)"
  shows "(\<exists>vals vc. get_column df ''hazard_type'' = Inr vals \<and> by_type_chart df = Inr (BarChart vc)
            \<and> counts_of vals vc \<and> counts_descending vc)
       \<and> (\<exists>vals vc. get_column df ''severity'' = Inr vals \<and> by_severity_chart df = Inr (BarChart vc)
            \<and> counts_of vals vc \<and> counts_descending vc)"
  using counts_chart_shown [OF assms(1,2)] counts_chart_shown [OF assms(1,3)]
  by (simp add: by_type_chart_def by_severity_chart_def)

theorem charts_list_most_frequent_first_witness:
  "(\<exists>vals vc. get_column busy_table ''hazard_type'' = Inr vals
       \<and> by_type_chart busy_table = Inr (BarChart vc)
       \<and> counts_of vals vc \<and> counts_descending vc)
   \<and> (\<exists>vals vc. get_column busy_table ''severity'' = Inr vals
       \<and> by_severity_chart busy_table = Inr (BarChart vc)
       \<and> counts_of vals vc \<and> counts_descending vc)"
proof -
  have e: "\<not> df_empty busy_table"
    by (simp add: df_empty_def busy_table_def schema_columns_def)
  have h: "''hazard_type'' \<in> set (columns busy_table)"
    and s: "''severity'' \<in> set (columns busy_table)"
    by (simp_all add: busy_table_def schema_columns_def)
  from charts_list_most_frequent_first [OF e h s] show ?thesis .
qed

subsection \<open>Row styling\<close>

text \<open>
  Claim C10 (\<open>style_severity\<close> depends on the severity alone). For a row of a frame with
  distinct column labels, one of them \<open>severity\<close>, the function returns one style per cell
  of the row, all equal: light red when the severity is Critical, light orange when High,
  light yellow when Medium, and the empty style for every other value.
\<close>

theorem style_severity_by_severity:
  assumes "distinct (columns df)" and "''severity'' \<in> set (columns df)"
    and "length r = length (columns df)"
  shows "style_severity (series_of df r) =
     Inr (replicate (length r)
       (if cell_of (columns df) r ''severity'' = Str ''Critical'' then ''background-color: #ffadad''
        else if cell_of (columns df) r ''severity'' = Str ''High'' then ''background-color: #ffd6a5''
        else if cell_of (columns df) r ''severity'' = Str ''Medium'' then ''background-color: #fdffb6''
        else ''''))"
proof -
  have "map snd (filter (\<lambda>kv. fst kv = ''severity'') (series_of df r)) =
        [cell_of (columns df) r ''severity'']"
    using assms by (simp add: series_of_def severity_of_series)
  moreover have "length (series_of df r) = length r"
    using assms(3) by (simp add: series_of_def)
  ultimately show ?thesis
    by (simp add: style_severity_def)
qed

theorem style_severity_by_severity_witness:
  "style_severity (series_of sample_table
      [Num 28.6139, Num 77.209, Str ''Other'', Str ''High'', Str ''Active'', Str ''Worker B'', Time 1600]) =
     Inr [''background-color: #ffd6a5'', ''background-color: #ffd6a5'',
          ''background-color: #ffd6a5'', ''background-color: #ffd6a5'',
          ''background-color: #ffd6a5'', ''background-color: #ffd6a5'',
          ''background-color: #ffd6a5'']
   \<and> style_severity (series_of sample_table
      [Num 28.6139, Num 77.209, Str ''Other'', Str ''Low'', Str ''Active'', Str ''Worker B'', Time 1600]) =
     Inr ['''', '''', '''', '''', '''', '''', '''']"
proof -
  have d: "distinct (columns sample_table)" and m: "''severity'' \<in> set (columns sample_table)"
    by (simp_all add: sample_table_def schema_columns_def)
  have l: "length [Num 28.6139, Num 77.209, Str ''Other'', Str ''High'', Str ''Active'',
             Str ''Worker B'', Time 1600] = length (columns sample_table)"
    and l': "length [Num 28.6139, Num 77.209, Str ''Other'', Str ''Low'', Str ''Active'',
             Str ''Worker B'', Time 1600] = length (columns sample_table)"
    by (simp_all add: sample_table_def schema_columns_def)
  have c: "cell_of (columns sample_table)
        [Num 28.6139, Num 77.209, Str ''Other'', Str ''High'', Str ''Active'', Str ''Worker B'', Time 1600]
        ''severity'' = Str ''High''"
    and c': "cell_of (columns sample_table)
        [Num 28.6139, Num 77.209, Str ''Other'', Str ''Low'', Str ''Active'', Str ''Worker B'', Time 1600]
        ''severity'' = Str ''Low''"
    by (simp_all add: sample_table_def schema_columns_def cell_of_def)
  from style_severity_by_severity [OF d m l] style_severity_by_severity [OF d m l'] c c'
  show ?thesis by simp
qed

end
